theory Spec2Isabelle
  imports Complex_Main
begin

section \<open>JavaScript values\<close>

text \<open>
  The form values, the fields of the user object and the properties read from the
  picker and from the server are JavaScript values. The TypeScript annotations say
  \<open>string\<close>, but they are erased: a field of the form that was never touched is
  \<open>undefined\<close>, and the schema below turns an empty string into \<open>null\<close>. A string is a
  list of characters, one \<^typ>\<open>char\<close> for each code unit of the JavaScript string, so
  \<^const>\<open>length\<close> is the \<open>.length\<close> of the source. A \<^typ>\<open>char\<close> has eight bits: the
  strings of the model are those whose code units are below 256 (Latin-1).
\<close>

datatype jsvalue = Undefined | Null | Str string

text \<open>\<open>!!value\<close>: of these values only a non-empty string is truthy.\<close>

fun truthy :: "jsvalue \<Rightarrow> bool" where
  "truthy (Str s) = (s \<noteq> [])"
| "truthy Undefined = False"
| "truthy Null = False"

text \<open>The conversion a template literal \<open>`${value}`\<close> applies.\<close>

fun to_string :: "jsvalue \<Rightarrow> string" where
  "to_string (Str s) = s"
| "to_string Undefined = ''undefined''"
| "to_string Null = ''null''"

text \<open>
  \<open>String.prototype.split\<close> with a one-character separator: the result is never
  empty, so the \<open>pop()\<close> of the source always finds a last element.
\<close>

fun split :: "char \<Rightarrow> string \<Rightarrow> string list" where
  "split sep [] = [[]]"
| "split sep (c # cs) =
     (if c = sep then [] # split sep cs
      else (case split sep cs of [] \<Rightarrow> [[c]] | w # ws \<Rightarrow> (c # w) # ws))"

definition pop :: "string list \<Rightarrow> string" where
  "pop xs = last xs"

text \<open>
  \<open>String.prototype.toLowerCase\<close>. The code units below 256 that have a lower case are
  \<open>A\<close> to \<open>Z\<close> (65 to 90) and the accented capitals 192 to 222 without the
  multiplication sign 215; each is 32 below its lower case. Every other character is
  left as it is.
\<close>

definition toLowerCase :: "string \<Rightarrow> string" where
  "toLowerCase s =
     map (\<lambda>c. let n = (of_char c :: nat)
              in if (65 \<le> n \<and> n \<le> 90) \<or> (192 \<le> n \<and> n \<le> 222 \<and> n \<noteq> 215)
                 then char_of (n + 32) else c) s"

section \<open>The form and its validation schema\<close>

text \<open>
  \<open>FormDataProps\<close> (lines 27 to 33): an object with five keys. An object is a function
  from its keys to values, \<^const>\<open>Undefined\<close> for a key that is absent.
\<close>

datatype field = Name | Email | Old_password | Password | Confirm_password

type_synonym FormDataProps = "field \<Rightarrow> jsvalue"

definition empty_object :: FormDataProps where
  "empty_object = (\<lambda>k. Undefined)"

subsection \<open>The part of yup that \<open>profileSchema\<close> uses\<close>

text \<open>
  A string schema records what its builder methods were given. \<open>when\<close> adds a
  condition to a schema; the function of its \<open>then\<close> branch receives the schema
  without its conditions, so a schema is a \<open>string_spec\<close> extended with conditions.

  yup has two lines of releases that treat \<open>null\<close> differently in \<open>oneOf\<close> and in
  \<open>required\<close> and run \<open>oneOf\<close> at different moments; the validation below takes the
  release as a parameter, and the theorems hold for both. \<open>Yup_0_32\<close> is the end of
  the 0.32 line (0.32.10 and 0.32.11), \<open>Yup_1\<close> the 1.x line.
\<close>

datatype yup_version = Yup_0_32 | Yup_1

datatype reference = Ref field

datatype test = MinTest nat string | RequiredTest string

record string_spec =
  transforms :: "(jsvalue \<Rightarrow> jsvalue) list"
  nullable_ok :: bool
  required_msg :: "string option"
  whitelist :: "(reference list \<times> string) option"
  tests :: "test list"

record string_schema = string_spec +
  conditions :: "(field \<times> (jsvalue \<Rightarrow> bool) \<times> (string_spec \<Rightarrow> string_spec)) list"

definition yup_string :: string_schema where
  "yup_string =
     \<lparr>transforms = [], nullable_ok = False, required_msg = None, whitelist = None,
      tests = [], conditions = []\<rparr>"

definition yup_ref :: "field \<Rightarrow> reference" where
  "yup_ref k = Ref k"

definition min_yup :: "nat \<Rightarrow> string \<Rightarrow> 'a string_spec_scheme \<Rightarrow> 'a string_spec_scheme" where
  "min_yup n message s = s\<lparr>tests := tests s @ [MinTest n message]\<rparr>"

definition nullable :: "'a string_spec_scheme \<Rightarrow> 'a string_spec_scheme" where
  "nullable s = s\<lparr>nullable_ok := True\<rparr>"

definition transform ::
  "(jsvalue \<Rightarrow> jsvalue) \<Rightarrow> 'a string_spec_scheme \<Rightarrow> 'a string_spec_scheme" where
  "transform f s = s\<lparr>transforms := transforms s @ [f]\<rparr>"

definition oneOf ::
  "reference list \<Rightarrow> string \<Rightarrow> 'a string_spec_scheme \<Rightarrow> 'a string_spec_scheme" where
  "oneOf enums message s = s\<lparr>whitelist := Some (enums, message)\<rparr>"

text \<open>
  \<open>required\<close> is called here on a schema that is already nullable and \<open>nullable\<close> is
  never called after it, so recording its message is enough for both releases: yup 1
  makes the schema non-nullable and defined with this message and adds a test on the
  length, yup 0.32 adds one test that rejects \<open>undefined\<close>, \<open>null\<close> and the empty string.
\<close>

definition required :: "string \<Rightarrow> 'a string_spec_scheme \<Rightarrow> 'a string_spec_scheme" where
  "required message s =
     s\<lparr>required_msg := Some message,
       tests := filter (\<lambda>t. case t of RequiredTest m \<Rightarrow> False | MinTest n m \<Rightarrow> True) (tests s)
                @ [RequiredTest message]\<rparr>"

definition when_yup ::
  "field \<Rightarrow> (jsvalue \<Rightarrow> bool) \<Rightarrow> (string_spec \<Rightarrow> string_spec) \<Rightarrow> string_schema \<Rightarrow> string_schema"
  where
  "when_yup k is_fn then_fn s = s\<lparr>conditions := conditions s @ [(k, is_fn, then_fn)]\<rparr>"

text \<open>
  \<open>schema.resolve\<close>: each condition reads its key in the parent object and, when \<open>is\<close>
  holds, replaces the schema by what \<open>then\<close> returns. There is no \<open>otherwise\<close> branch in
  the source, so the schema is kept when \<open>is\<close> does not hold.
\<close>

definition resolve :: "string_schema \<Rightarrow> FormDataProps \<Rightarrow> string_spec" where
  "resolve s parent =
     foldl (\<lambda>base (k, is_fn, then_fn). if is_fn (parent k) then then_fn base else base)
       (string_spec.truncate s) (conditions s)"

text \<open>\<open>cast\<close>: the transforms run in order, and not at all on \<open>undefined\<close>.\<close>

definition cast :: "string_spec \<Rightarrow> jsvalue \<Rightarrow> jsvalue" where
  "cast s v = (if v = Undefined then v else foldl (\<lambda>x f. f x) v (transforms s))"

text \<open>The messages of yup's default locale; no schema of this file can produce them.\<close>

definition locale_notNull :: string where
  "locale_notNull = ''this cannot be null''"

definition locale_notType :: string where
  "locale_notType = ''this must be a `string` type''"

text \<open>
  The whitelist of \<open>oneOf\<close>. A reference in it is read in the parent object. yup 1
  skips the test on an absent value, yup 0.32 on \<open>undefined\<close> only.
\<close>

definition resolveAll :: "reference list \<Rightarrow> FormDataProps \<Rightarrow> jsvalue list" where
  "resolveAll enums parent = map (\<lambda>r. case r of Ref k \<Rightarrow> parent k) enums"

definition whitelist_errors :: "bool \<Rightarrow> string_spec \<Rightarrow> FormDataProps \<Rightarrow> jsvalue \<Rightarrow> string list"
  where
  "whitelist_errors skipNull s parent v =
     (case whitelist s of
        None \<Rightarrow> []
      | Some (enums, message) \<Rightarrow>
          if v = Undefined \<or> (skipNull \<and> v = Null) then []
          else if v \<in> set (resolveAll enums parent) then [] else [message])"

text \<open>
  The tests that run first. yup 1: \<open>nullable\<close>, \<open>whiteList\<close>, \<open>optionality\<close>. yup 0.32:
  the type check alone, which rejects \<open>null\<close> unless the schema is nullable. A
  \<^typ>\<open>jsvalue\<close> that is not absent is a string, so the type check has nothing else to
  reject.
\<close>

fun initial_errors ::
  "yup_version \<Rightarrow> string_spec \<Rightarrow> FormDataProps \<Rightarrow> jsvalue \<Rightarrow> string list" where
  "initial_errors Yup_1 s parent v =
     (if v = Null then
        (case required_msg s of
           Some message \<Rightarrow> [message]
         | None \<Rightarrow> if nullable_ok s then [] else [locale_notNull])
      else [])
     @ whitelist_errors True s parent v
     @ (if v = Undefined then (case required_msg s of Some message \<Rightarrow> [message] | None \<Rightarrow> [])
        else [])"
| "initial_errors Yup_0_32 s parent v =
     (if v = Null \<and> \<not> nullable_ok s then [locale_notType] else [])"

text \<open>
  The tests that run last: in yup 0.32 the whitelist, after the tests the builder
  methods added. yup 1 has run it already.
\<close>

fun final_errors ::
  "yup_version \<Rightarrow> string_spec \<Rightarrow> FormDataProps \<Rightarrow> jsvalue \<Rightarrow> string list" where
  "final_errors Yup_1 s parent v = []"
| "final_errors Yup_0_32 s parent v = whitelist_errors False s parent v"

text \<open>
  The other tests, in the order they were added. \<open>min\<close> passes an absent value. The
  \<open>required\<close> test of yup 1 looks at the length only (\<open>null\<close> and \<open>undefined\<close> were
  rejected before); the one of yup 0.32 rejects the absent values too.
\<close>

fun run_test :: "yup_version \<Rightarrow> test \<Rightarrow> jsvalue \<Rightarrow> string list" where
  "run_test ver (MinTest n message) (Str s) = (if n \<le> length s then [] else [message])"
| "run_test ver (MinTest n message) v = []"
| "run_test ver (RequiredTest message) (Str s) = (if s \<noteq> [] then [] else [message])"
| "run_test Yup_1 (RequiredTest message) v = []"
| "run_test Yup_0_32 (RequiredTest message) v = [message]"

text \<open>
  Validation of one value that is already cast: when one of the first tests fails the
  others are not run; otherwise all of them run (\<open>abortEarly: false\<close>) and their errors
  are kept in order.
\<close>

definition validate_value ::
  "yup_version \<Rightarrow> string_spec \<Rightarrow> FormDataProps \<Rightarrow> jsvalue \<Rightarrow> string list" where
  "validate_value ver s parent v =
     (let errs = initial_errors ver s parent v
      in if errs \<noteq> [] then errs
         else concat (map (\<lambda>t. run_test ver t v) (tests s)) @ final_errors ver s parent v)"

text \<open>
  \<open>yup.object\<close>: the fields in the order yup visits them, a field after the fields it
  refers to. The cast builds the new object field by field, each field resolved
  against what is built so far; keys without a schema are copied.
\<close>

type_synonym object_schema = "(field \<times> string_schema) list"

definition yup_object :: "(field \<times> string_schema) list \<Rightarrow> object_schema" where
  "yup_object shape = shape"

definition cast_object :: "object_schema \<Rightarrow> FormDataProps \<Rightarrow> FormDataProps" where
  "cast_object shape v =
     (let inter = foldl (\<lambda>inter (k, s). inter(k := cast (resolve s inter) (v k)))
                    empty_object shape
      in (\<lambda>k. if k \<in> set (map fst shape) then inter k else v k))"

text \<open>
  \<open>schema.validate(values, {abortEarly: false})\<close>: the cast object, and the errors of
  all fields as pairs of a path and a message.
\<close>

definition validate_inner ::
  "yup_version \<Rightarrow> object_schema \<Rightarrow> FormDataProps \<Rightarrow> (field \<times> string) list" where
  "validate_inner ver shape values =
     (let v = cast_object shape values
      in concat (map (\<lambda>(k, s). map (\<lambda>message. (k, message))
                                  (validate_value ver (resolve s v) v (v k))) shape))"

text \<open>
  \<open>yupResolver\<close>: the cast values when there is no error, and otherwise, for each field,
  the message of its first error (what \<open>errors.password?.message\<close> shows).
\<close>

definition field_errors ::
  "yup_version \<Rightarrow> object_schema \<Rightarrow> FormDataProps \<Rightarrow> field \<Rightarrow> string option" where
  "field_errors ver shape values = map_of (validate_inner ver shape values)"

definition yupResolver ::
  "yup_version \<Rightarrow> object_schema \<Rightarrow> FormDataProps \<Rightarrow> (field \<Rightarrow> string option) + FormDataProps"
  where
  "yupResolver ver shape values =
     (if validate_inner ver shape values = [] then Inr (cast_object shape values)
      else Inl (field_errors ver shape values))"

subsection \<open>\<open>profileSchema\<close> (lines 35 to 55)\<close>

text \<open>The messages, without their diacritics.\<close>

definition msg_name_required :: string where
  "msg_name_required = ''Informe o nome.''"

definition msg_password_min :: string where
  "msg_password_min = ''A nova senha deve ter pelo menos 6 digitos.''"

definition msg_confirm_mismatch :: string where
  "msg_confirm_mismatch = ''A confirmacao da nova senha nao confere.''"

definition msg_confirm_required :: string where
  "msg_confirm_required = ''Informe a confirmacao da senha.''"

text \<open>\<open>(value) => (!!value ? value : null)\<close>\<close>

definition empty_to_null :: "jsvalue \<Rightarrow> jsvalue" where
  "empty_to_null v = (if truthy v then v else Null)"

definition profileSchema :: object_schema where
  "profileSchema = yup_object
     [(Name, required msg_name_required yup_string),
      (Password,
         transform empty_to_null (nullable (min_yup 6 msg_password_min yup_string))),
      (Confirm_password,
         when_yup Password (\<lambda>Field. truthy Field)
           (\<lambda>schema. transform empty_to_null (required msg_confirm_required (nullable schema)))
           (oneOf [yup_ref Password] msg_confirm_mismatch
              (transform empty_to_null (nullable yup_string))))]"

section \<open>The screen's state and its collaborators\<close>

text \<open>
  Modelled from the spec: the declaration of the user object (\<open>UserDTO\<close>) is not among
  the sources; the spec gives it the fields \<open>id\<close>, \<open>name\<close>, \<open>email\<close> and \<open>avatar\<close>.
\<close>

record UserDTO =
  user_id :: jsvalue
  name :: jsvalue
  email :: jsvalue
  avatar :: jsvalue

record toast =
  title :: string
  placement :: string
  bgColor :: string

text \<open>
  What a failed call throws. The \<open>catch\<close> blocks ask one question of it,
  \<open>error instanceof AppError\<close>, and read the message of an \<open>AppError\<close>.
\<close>

datatype js_error = AppError string | OtherError

text \<open>The result of the image picker, and of the file system's \<open>getInfoAsync\<close>.\<close>

record ImagePickerAsset =
  uri :: string
  asset_type :: jsvalue

record ImagePickerResult =
  canceled :: bool
  assets :: "ImagePickerAsset list"

record FileInfo =
  size_bytes :: "int option"

text \<open>The requests sent through \<open>api\<close>, and its response.\<close>

record photoFile =
  file_name :: string
  file_uri :: string
  file_type :: string

datatype http_method = PATCH | PUT

datatype body = FormData "(string \<times> photoFile) list" | Json FormDataProps

record request =
  http_method :: http_method
  url :: string
  body :: body
  headers :: "(string \<times> string) list"

text \<open>
  \<open>data\<close> is \<open>None\<close> when the response carries no object (reading \<open>data.avatar\<close> then
  throws a \<open>TypeError\<close>), and otherwise the value of its \<open>avatar\<close> property.
\<close>

record AxiosResponse =
  data :: "jsvalue option"

text \<open>
  The collaborators answer as the environment decides: the picker, the file system
  and the remote API either throw or return.
\<close>

record env =
  launchImageLibraryAsync :: "js_error + ImagePickerResult"
  getInfoAsync :: "string \<Rightarrow> js_error + FileInfo"
  api :: "request \<Rightarrow> js_error + AxiosResponse"

text \<open>
  The user object lives in a store and \<open>user\<close>, which \<open>useAuth()\<close> hands to the screen,
  is a reference to it: \<open>const userUpdated = user\<close> copies the reference, not the
  object. \<open>pushed\<close> lists the snapshots \<open>updateUserProfile\<close> has received, \<open>requests\<close>
  the calls made to the remote API, \<open>toasts\<close> what \<open>toast.show\<close> was given.
\<close>

record state =
  heap :: "nat \<Rightarrow> UserDTO"
  user :: nat
  pushed :: "UserDTO list"
  isUpdating :: bool
  photoIsLoading :: bool
  toasts :: "toast list"
  requests :: "request list"

definition toast_show :: "toast \<Rightarrow> state \<Rightarrow> state" where
  "toast_show t st = st\<lparr>toasts := toasts st @ [t]\<rparr>"

text \<open>
  Modelled from the spec: \<open>updateUserProfile\<close> belongs to the session (\<open>useAuth\<close>),
  which is not among the sources. The spec gives it as
  \<open>setCurrentUser(UserProfile) -> void\<close>: the session keeps the object it is handed.
\<close>

definition updateUserProfile :: "nat \<Rightarrow> state \<Rightarrow> state" where
  "updateUserProfile userUpdated st =
     st\<lparr>user := userUpdated, pushed := pushed st @ [heap st userUpdated]\<rparr>"

definition api_call :: "env \<Rightarrow> request \<Rightarrow> state \<Rightarrow> (js_error + AxiosResponse) \<times> state" where
  "api_call e req st = (api e req, st\<lparr>requests := requests st @ [req]\<rparr>)"

section \<open>\<open>handleUserPhotoSelect\<close> (lines 79 to 151)\<close>

definition size_limit_toast :: toast where
  "size_limit_toast =
     \<lparr>title = ''Essa Imagem e muito grande. Escolha uma de ate 5MB'',
      placement = ''top'', bgColor = ''red.500''\<rparr>"

definition photo_updated_toast :: toast where
  "photo_updated_toast =
     \<lparr>title = ''Foto atualizada!'', placement = ''top'', bgColor = ''green.500''\<rparr>"

definition photo_error_toast :: "js_error \<Rightarrow> toast" where
  "photo_error_toast error =
     \<lparr>title = (case error of
                 AppError message \<Rightarrow> message
               | OtherError \<Rightarrow>
                   ''Nao foi possivel atualizar a foto. Tente novamente mais tarde.''),
      placement = ''top'', bgColor = ''red.500''\<rparr>"

text \<open>\<open>photoInfo.size && photoInfo.size / 1024 / 1024 > 5\<close> (line 96).\<close>

definition too_large :: "FileInfo \<Rightarrow> bool" where
  "too_large photoInfo =
     (case size_bytes photoInfo of
        None \<Rightarrow> False
      | Some n \<Rightarrow> n \<noteq> 0 \<and> real_of_int n / 1024 / 1024 > 5)"

text \<open>Lines 104 to 123: the file and the request that carries it.\<close>

definition avatar_request :: "state \<Rightarrow> ImagePickerAsset \<Rightarrow> request" where
  "avatar_request st asset =
     (let fileExtension = pop (split (CHR ''.'') (uri asset));
          photoFile =
            \<lparr>file_name =
               toLowerCase (to_string (name (heap st (user st))) @ ''.'' @ fileExtension),
             file_uri = uri asset,
             file_type = to_string (asset_type asset) @ ''/'' @ fileExtension\<rparr>;
          userPhotoUploadForm = [(''avatar'', photoFile)]
      in \<lparr>http_method = PATCH, url = ''/users/avatar'', body = FormData userPhotoUploadForm,
          headers = [(''Content-Type'', ''multipart/form-data'')]\<rparr>)"

text \<open>
  Lines 104 to 135. A block of the \<open>try\<close> returns the state it has reached and the
  error it threw, if it threw.
\<close>

definition upload :: "env \<Rightarrow> ImagePickerAsset \<Rightarrow> state \<Rightarrow> js_error option \<times> state" where
  "upload e asset st =
     (case api_call e (avatar_request st asset) st of
        (Inl error, st1) \<Rightarrow> (Some error, st1)
      | (Inr avatarUpdatedResponse, st1) \<Rightarrow>
          (case data avatarUpdatedResponse of
             None \<Rightarrow> (Some OtherError, st1)
           | Some response_avatar \<Rightarrow>
               (let userUpdated = user st1;
                    st2 = st1\<lparr>heap := (heap st1)
                            (userUpdated := (heap st1 userUpdated)\<lparr>avatar := response_avatar\<rparr>)\<rparr>;
                    st3 = updateUserProfile userUpdated st2
                in (None, toast_show photo_updated_toast st3))))"

text \<open>Lines 82 to 136, the body of the \<open>try\<close>.\<close>

definition handleUserPhotoSelect_try :: "env \<Rightarrow> state \<Rightarrow> js_error option \<times> state" where
  "handleUserPhotoSelect_try e st =
     (case launchImageLibraryAsync e of
        Inl error \<Rightarrow> (Some error, st)
      | Inr photoSelected \<Rightarrow>
          if canceled photoSelected then (None, st)
          else (case assets photoSelected of
                  [] \<Rightarrow> (Some OtherError, st)
                | asset # rest \<Rightarrow>
                    if uri asset \<noteq> [] then
                      (case getInfoAsync e (uri asset) of
                         Inl error \<Rightarrow> (Some error, st)
                       | Inr photoInfo \<Rightarrow>
                           if too_large photoInfo then (None, toast_show size_limit_toast st)
                           else upload e asset st)
                    else (None, st)))"

definition handleUserPhotoSelect :: "env \<Rightarrow> state \<Rightarrow> state" where
  "handleUserPhotoSelect e st =
     (case handleUserPhotoSelect_try e (st\<lparr>photoIsLoading := True\<rparr>) of
        (thrown, st1) \<Rightarrow>
          (case thrown of
             None \<Rightarrow> st1
           | Some error \<Rightarrow> toast_show (photo_error_toast error) st1)
          \<lparr>photoIsLoading := False\<rparr>)"

section \<open>\<open>handleProfileUpdate\<close> (lines 153 to 182)\<close>

definition profile_updated_toast :: toast where
  "profile_updated_toast =
     \<lparr>title = ''Perfil atualizado com sucesso!'', placement = ''top'',
      bgColor = ''green.500''\<rparr>"

definition profile_error_toast :: "js_error \<Rightarrow> toast" where
  "profile_error_toast error =
     \<lparr>title = (case error of
                 AppError message \<Rightarrow> message
               | OtherError \<Rightarrow>
                   ''Nao foi possivel atualizar os dados. Tente novamente mais tarde.''),
      placement = ''top'', bgColor = ''red.500''\<rparr>"

definition profile_request :: "FormDataProps \<Rightarrow> request" where
  "profile_request d = \<lparr>http_method = PUT, url = ''/users'', body = Json d, headers = []\<rparr>"

text \<open>Lines 155 to 167, the body of the \<open>try\<close>.\<close>

definition handleProfileUpdate_try ::
  "env \<Rightarrow> FormDataProps \<Rightarrow> state \<Rightarrow> js_error option \<times> state" where
  "handleProfileUpdate_try e d st =
     (let st1 = st\<lparr>isUpdating := True\<rparr>;
          userUpdated = user st1;
          st2 = st1\<lparr>heap := (heap st1)
                  (userUpdated := (heap st1 userUpdated)\<lparr>name := d Name\<rparr>)\<rparr>
      in case api_call e (profile_request d) st2 of
           (Inl error, st3) \<Rightarrow> (Some error, st3)
         | (Inr response, st3) \<Rightarrow>
             (None, toast_show profile_updated_toast (updateUserProfile userUpdated st3)))"

definition handleProfileUpdate :: "env \<Rightarrow> FormDataProps \<Rightarrow> state \<Rightarrow> state" where
  "handleProfileUpdate e d st =
     (case handleProfileUpdate_try e d st of
        (thrown, st1) \<Rightarrow>
          (case thrown of
             None \<Rightarrow> st1
           | Some error \<Rightarrow> toast_show (profile_error_toast error) st1)
          \<lparr>isUpdating := False\<rparr>)"

text \<open>What the session shows as the current user.\<close>

definition current_user :: "state \<Rightarrow> UserDTO" where
  "current_user st = heap st (user st)"

section \<open>Concrete inputs\<close>

text \<open>A signed-in user, a screen at rest, and collaborators with fixed answers.\<close>

definition example_user :: UserDTO where
  "example_user =
     \<lparr>user_id = Str ''1'', name = Str ''Ana'', email = Str ''ana@example.com'',
      avatar = Undefined\<rparr>"

definition example_state :: state where
  "example_state =
     \<lparr>heap = (\<lambda>a. example_user), user = 0, pushed = [], isUpdating = False,
      photoIsLoading = False, toasts = [], requests = []\<rparr>"

definition example_env ::
  "js_error + ImagePickerResult \<Rightarrow> js_error + FileInfo \<Rightarrow> js_error + AxiosResponse \<Rightarrow> env"
  where
  "example_env picked info response =
     \<lparr>launchImageLibraryAsync = picked, getInfoAsync = (\<lambda>u. info), api = (\<lambda>req. response)\<rparr>"

definition example_asset :: ImagePickerAsset where
  "example_asset = \<lparr>uri = ''file:///photos/me.JPG'', asset_type = Str ''image''\<rparr>"

definition example_picked :: "js_error + ImagePickerResult" where
  "example_picked = Inr \<lparr>canceled = False, assets = [example_asset]\<rparr>"

definition example_cancelled :: "js_error + ImagePickerResult" where
  "example_cancelled = Inr \<lparr>canceled = True, assets = []\<rparr>"

text \<open>The form as the screen fills it: name and e-mail always, the passwords as typed.\<close>

definition example_form :: "jsvalue \<Rightarrow> jsvalue \<Rightarrow> jsvalue \<Rightarrow> FormDataProps" where
  "example_form n p c =
     empty_object(Name := n, Email := Str ''ana@example.com'', Password := p,
       Confirm_password := c)"

section \<open>Validation: what each field of \<open>profileSchema\<close> reports\<close>

lemmas schema_defs = min_yup_def nullable_def transform_def oneOf_def required_def when_yup_def
  yup_string_def yup_ref_def string_spec.truncate_def resolve_def

lemmas value_defs = validate_value_def whitelist_errors_def resolveAll_def

lemma cast_profileSchema:
  "cast_object profileSchema v =
     v(Password := (if v Password = Undefined then Undefined else empty_to_null (v Password)),
       Confirm_password :=
         (if v Confirm_password = Undefined then Undefined
          else empty_to_null (v Confirm_password)))"
  by (rule ext)
     (simp add: cast_object_def profileSchema_def yup_object_def cast_def schema_defs
        empty_object_def empty_to_null_def)

lemma validate_Name:
  "validate_value ver (resolve (required m yup_string) c) c x =
     (case x of
        Str s \<Rightarrow> if s \<noteq> [] then [] else [m]
      | Undefined \<Rightarrow> [m]
      | Null \<Rightarrow> (case ver of Yup_1 \<Rightarrow> [m] | Yup_0_32 \<Rightarrow> [locale_notType]))"
  by (cases ver; cases x) (simp_all add: schema_defs value_defs)

lemma validate_Password:
  "validate_value ver (resolve (transform f (nullable (min_yup n m yup_string))) c) c x =
     (case x of Str s \<Rightarrow> if n \<le> length s then [] else [m] | Undefined \<Rightarrow> [] | Null \<Rightarrow> [])"
  by (cases ver; cases x) (simp_all add: schema_defs value_defs)

lemma validate_Confirm_password:
  "validate_value ver
     (resolve (when_yup Password (\<lambda>Field. truthy Field)
                (\<lambda>schema. transform f (required mr (nullable schema)))
                (oneOf [yup_ref Password] mm (transform f (nullable yup_string)))) c) c x =
     (case x of
        Str s \<Rightarrow>
          if x = c Password then []
          else if ver = Yup_0_32 \<and> s = [] \<and> truthy (c Password) then [mr, mm]
          else [mm]
      | Null \<Rightarrow> (case ver of
                  Yup_1 \<Rightarrow> if truthy (c Password) then [mr] else []
                | Yup_0_32 \<Rightarrow>
                    if truthy (c Password) then [mr, mm]
                    else if c Password = Null then [] else [mm])
      | Undefined \<Rightarrow> if truthy (c Password) then [mr] else [])"
  by (cases ver; cases x; cases "c Password") (simp_all add: schema_defs value_defs)

lemma validate_inner_profileSchema:
  "validate_inner ver profileSchema v =
     (let c = cast_object profileSchema v
      in map (Pair Name)
           (validate_value ver (resolve (required msg_name_required yup_string) c) c (c Name))
       @ map (Pair Password)
           (validate_value ver
              (resolve (transform empty_to_null
                          (nullable (min_yup 6 msg_password_min yup_string))) c)
              c (c Password))
       @ map (Pair Confirm_password)
           (validate_value ver
              (resolve (when_yup Password (\<lambda>Field. truthy Field)
                 (\<lambda>schema. transform empty_to_null
                              (required msg_confirm_required (nullable schema)))
                 (oneOf [yup_ref Password] msg_confirm_mismatch
                    (transform empty_to_null (nullable yup_string)))) c)
              c (c Confirm_password)))"
  by (simp add: validate_inner_def Let_def) (simp add: profileSchema_def yup_object_def)

lemma map_of_Pair:
  "map_of (map (Pair k) xs @ ys) k' =
     (if k' = k \<and> xs \<noteq> [] then Some (hd xs) else map_of ys k')"
  by (induction xs) auto

lemma map_of_Pair_last:
  "map_of (map (Pair k) xs) k' = (if k' = k \<and> xs \<noteq> [] then Some (hd xs) else None)"
  using map_of_Pair [of k xs "[]" k'] by simp

lemma errors_Name:
  "field_errors ver profileSchema v Name =
     (case v Name of
        Str s \<Rightarrow> if s \<noteq> [] then None else Some msg_name_required
      | Undefined \<Rightarrow> Some msg_name_required
      | Null \<Rightarrow> (case ver of
                  Yup_1 \<Rightarrow> Some msg_name_required
                | Yup_0_32 \<Rightarrow> Some locale_notType))"
  by (cases "v Name")
     (simp_all add: field_errors_def validate_inner_profileSchema cast_profileSchema Let_def
        validate_Name map_of_Pair map_of_Pair_last
        del: map_of_append split: yup_version.split)

lemma errors_Password:
  "field_errors ver profileSchema v Password =
     (case v Password of
        Str s \<Rightarrow> if s \<noteq> [] \<and> length s < 6 then Some msg_password_min else None
      | Undefined \<Rightarrow> None
      | Null \<Rightarrow> None)"
  by (cases "v Name"; cases "v Password")
     (simp_all add: field_errors_def validate_inner_profileSchema cast_profileSchema Let_def
        validate_Name validate_Password map_of_Pair map_of_Pair_last empty_to_null_def
        del: map_of_append split: yup_version.split)

lemma errors_Confirm_password:
  "field_errors ver profileSchema v Confirm_password =
     (if truthy (v Confirm_password) then
        (if v Confirm_password = v Password then None else Some msg_confirm_mismatch)
      else if truthy (v Password) then Some msg_confirm_required
      else if ver = Yup_0_32 \<and> v Password = Undefined \<and> v Confirm_password \<noteq> Undefined
        then Some msg_confirm_mismatch
      else None)"
  by (cases ver; cases "v Password"; cases "v Confirm_password")
     (auto simp add: field_errors_def validate_inner_profileSchema cast_profileSchema Let_def
        validate_Confirm_password map_of_Pair map_of_Pair_last empty_to_null_def
        simp del: map_of_append)

text \<open>A field with an error makes the resolver return the errors, not the values.\<close>

lemma resolver_rejects:
  "field_errors ver shape v k = Some m \<Longrightarrow>
   yupResolver ver shape v = Inl (field_errors ver shape v)"
  by (auto simp add: yupResolver_def field_errors_def)

text \<open>
  C8. A password of one to five characters is rejected, and the field \<open>password\<close>
  carries the message of the minimum length.
\<close>

theorem short_password_rejected:
  assumes "values Password = Str s" and "1 \<le> length s" and "length s \<le> 5"
  shows "yupResolver ver profileSchema values = Inl (field_errors ver profileSchema values)
         \<and> field_errors ver profileSchema values Password = Some msg_password_min"
proof -
  from assms have e: "field_errors ver profileSchema values Password = Some msg_password_min"
    by (auto simp add: errors_Password)
  from e have "yupResolver ver profileSchema values = Inl (field_errors ver profileSchema values)"
    by (rule resolver_rejects)
  with e show ?thesis by simp
qed

text \<open>Scenario 1 of the spec: \<open>abc12\<close>, confirmed by \<open>abc12\<close>, under both releases.\<close>

theorem short_password_rejected_witness:
  "example_form (Str ''Ana'') (Str ''abc12'') (Str ''abc12'') Password = Str ''abc12''
   \<and> 1 \<le> length ''abc12'' \<and> length ''abc12'' \<le> 5
   \<and> field_errors Yup_1 profileSchema
        (example_form (Str ''Ana'') (Str ''abc12'') (Str ''abc12'')) Password
      = Some msg_password_min
   \<and> field_errors Yup_0_32 profileSchema
        (example_form (Str ''Ana'') (Str ''abc12'') (Str ''abc12'')) Password
      = Some msg_password_min"
  using short_password_rejected
          [of "example_form (Str ''Ana'') (Str ''abc12'') (Str ''abc12'')" "''abc12''" Yup_1]
        short_password_rejected
          [of "example_form (Str ''Ana'') (Str ''abc12'') (Str ''abc12'')" "''abc12''" Yup_0_32]
  by (simp add: example_form_def)

text \<open>
  C2, as stated, fails: with an empty password a stray confirmation is rejected. The
  \<open>oneOf\<close> rule stands outside the \<open>when\<close>, so it compares the confirmation with the
  password whether or not a password was typed.
\<close>

theorem stray_confirmation_counterexample:
  "\<not> truthy (example_form (Str ''Ana'') (Str '''') (Str ''stray'') Password)
   \<and> field_errors Yup_1 profileSchema
        (example_form (Str ''Ana'') (Str '''') (Str ''stray'')) Confirm_password
      = Some msg_confirm_mismatch
   \<and> field_errors Yup_0_32 profileSchema
        (example_form (Str ''Ana'') (Str '''') (Str ''stray'')) Confirm_password
      = Some msg_confirm_mismatch
   \<and> isl (yupResolver Yup_1 profileSchema
             (example_form (Str ''Ana'') (Str '''') (Str ''stray'')))
   \<and> isl (yupResolver Yup_0_32 profileSchema
             (example_form (Str ''Ana'') (Str '''') (Str ''stray'')))"
proof -
  let ?f = "example_form (Str ''Ana'') (Str '''') (Str ''stray'')"
  have p: "?f Password = Str ''''" and c: "?f Confirm_password = Str ''stray''"
    by (simp_all add: example_form_def)
  have e: "field_errors ver profileSchema ?f Confirm_password = Some msg_confirm_mismatch"
    for ver
    by (simp add: errors_Confirm_password p c)
  have "isl (yupResolver ver profileSchema ?f)" for ver
    using resolver_rejects [OF e [of ver]] by simp
  with e p show ?thesis by simp
qed

text \<open>
  C2, amended. When the password is empty or absent the confirmation is not required,
  but it is still compared with the password: an absent confirmation passes, an empty
  one passes when the password is an empty string (under yup 1 also when the password
  is absent), and a non-empty one is rejected as a mismatch.
\<close>

theorem confirmation_without_password:
  assumes "\<not> truthy (values Password)"
  shows "field_errors ver profileSchema values Confirm_password =
           (if truthy (values Confirm_password) then Some msg_confirm_mismatch
            else if ver = Yup_0_32 \<and> values Password = Undefined
                    \<and> values Confirm_password \<noteq> Undefined
              then Some msg_confirm_mismatch
            else None)"
proof (cases "truthy (values Confirm_password)")
  case True
  with assms have "values Confirm_password \<noteq> values Password" by auto
  with True assms show ?thesis by (simp add: errors_Confirm_password)
next
  case False
  with assms show ?thesis by (simp add: errors_Confirm_password)
qed

text \<open>Scenario 2 of the spec (both empty: accepted), and a stray confirmation.\<close>

theorem confirmation_without_password_witness:
  "\<not> truthy (example_form (Str ''Ana'') (Str '''') (Str '''') Password)
   \<and> field_errors Yup_1 profileSchema
        (example_form (Str ''Ana'') (Str '''') (Str '''')) Confirm_password = None
   \<and> field_errors Yup_0_32 profileSchema
        (example_form (Str ''Ana'') (Str '''') (Str '''')) Confirm_password = None
   \<and> field_errors Yup_1 profileSchema
        (example_form (Str ''Ana'') Undefined (Str ''x'')) Confirm_password
      = Some msg_confirm_mismatch"
  using confirmation_without_password
          [of "example_form (Str ''Ana'') (Str '''') (Str '''')" Yup_1]
        confirmation_without_password
          [of "example_form (Str ''Ana'') (Str '''') (Str '''')" Yup_0_32]
        confirmation_without_password
          [of "example_form (Str ''Ana'') Undefined (Str ''x'')" Yup_1]
  by (simp add: example_form_def)

text \<open>
  C9, as stated, fails: a confirmation that was never typed differs from the password,
  and what the field carries is the message of \<open>required\<close>, not the mismatch.
\<close>

theorem absent_confirmation_counterexample:
  "truthy (example_form (Str ''Ana'') (Str ''secret1'') Undefined Password)
   \<and> example_form (Str ''Ana'') (Str ''secret1'') Undefined Confirm_password
      \<noteq> example_form (Str ''Ana'') (Str ''secret1'') Undefined Password
   \<and> field_errors Yup_1 profileSchema
        (example_form (Str ''Ana'') (Str ''secret1'') Undefined) Confirm_password
      = Some msg_confirm_required
   \<and> field_errors Yup_0_32 profileSchema
        (example_form (Str ''Ana'') (Str ''secret1'') Undefined) Confirm_password
      = Some msg_confirm_required
   \<and> msg_confirm_required \<noteq> msg_confirm_mismatch"
  by (simp add: errors_Confirm_password example_form_def msg_confirm_required_def
        msg_confirm_mismatch_def)

text \<open>
  C9, amended. With a non-empty password, a confirmation that differs from it is always
  rejected on the field \<open>confirm_password\<close>: as a mismatch when the confirmation is a
  non-empty string, and with the message of \<open>required\<close> when it is absent or empty.
\<close>

theorem differing_confirmation_rejected:
  assumes "truthy (values Password)"
    and "values Confirm_password \<noteq> values Password"
  shows "yupResolver ver profileSchema values = Inl (field_errors ver profileSchema values)
         \<and> field_errors ver profileSchema values Confirm_password =
             Some (if truthy (values Confirm_password) then msg_confirm_mismatch
                   else msg_confirm_required)"
proof -
  from assms have e: "field_errors ver profileSchema values Confirm_password =
             Some (if truthy (values Confirm_password) then msg_confirm_mismatch
                   else msg_confirm_required)"
    by (simp add: errors_Confirm_password)
  from e have "yupResolver ver profileSchema values = Inl (field_errors ver profileSchema values)"
    by (rule resolver_rejects)
  with e show ?thesis by simp
qed

text \<open>
  Scenario 3 of the spec, \<open>secret1\<close> against \<open>secret2\<close>, and \<open>secret1\<close> against an empty
  confirmation.
\<close>

theorem differing_confirmation_rejected_witness:
  "truthy (example_form (Str ''Ana'') (Str ''secret1'') (Str ''secret2'') Password)
   \<and> example_form (Str ''Ana'') (Str ''secret1'') (Str ''secret2'') Confirm_password
      \<noteq> example_form (Str ''Ana'') (Str ''secret1'') (Str ''secret2'') Password
   \<and> field_errors Yup_1 profileSchema
        (example_form (Str ''Ana'') (Str ''secret1'') (Str ''secret2'')) Confirm_password
      = Some msg_confirm_mismatch
   \<and> field_errors Yup_0_32 profileSchema
        (example_form (Str ''Ana'') (Str ''secret1'') (Str ''secret2'')) Confirm_password
      = Some msg_confirm_mismatch
   \<and> field_errors Yup_1 profileSchema
        (example_form (Str ''Ana'') (Str ''secret1'') (Str '''')) Confirm_password
      = Some msg_confirm_required
   \<and> field_errors Yup_0_32 profileSchema
        (example_form (Str ''Ana'') (Str ''secret1'') (Str '''')) Confirm_password
      = Some msg_confirm_required"
  using differing_confirmation_rejected
          [of "example_form (Str ''Ana'') (Str ''secret1'') (Str ''secret2'')" Yup_1]
        differing_confirmation_rejected
          [of "example_form (Str ''Ana'') (Str ''secret1'') (Str ''secret2'')" Yup_0_32]
        differing_confirmation_rejected
          [of "example_form (Str ''Ana'') (Str ''secret1'') (Str '''')" Yup_1]
        differing_confirmation_rejected
          [of "example_form (Str ''Ana'') (Str ''secret1'') (Str '''')" Yup_0_32]
  by (simp add: example_form_def)

section \<open>The photo workflow\<close>

lemma too_large_iff:
  "too_large photoInfo =
     (case size_bytes photoInfo of None \<Rightarrow> False | Some n \<Rightarrow> 5 * 1024 * 1024 < n)"
  by (auto simp add: too_large_def split: option.split)

lemma avatar_request_loading [simp]:
  "avatar_request (st\<lparr>photoIsLoading := b\<rparr>) asset = avatar_request st asset"
  by (simp add: avatar_request_def)

text \<open>The handler once the picker has returned an image, in terms of the two later steps.\<close>

lemma photo_selected:
  assumes "launchImageLibraryAsync e = Inr photoSelected"
    and "\<not> canceled photoSelected"
    and "assets photoSelected = asset # rest"
    and "uri asset \<noteq> []"
    and "getInfoAsync e (uri asset) = Inr photoInfo"
  shows "handleUserPhotoSelect_try e st =
           (if too_large photoInfo then (None, toast_show size_limit_toast st)
            else upload e asset st)"
  using assms by (simp add: handleUserPhotoSelect_try_def)

lemma upload_result:
  "upload e asset st =
     (case api e (avatar_request st asset) of
        Inl error \<Rightarrow> (Some error, st\<lparr>requests := requests st @ [avatar_request st asset]\<rparr>)
      | Inr response \<Rightarrow>
          (case data response of
             None \<Rightarrow> (Some OtherError, st\<lparr>requests := requests st @ [avatar_request st asset]\<rparr>)
           | Some a \<Rightarrow>
               (None,
                st\<lparr>heap := (heap st)(user st := (heap st (user st))\<lparr>avatar := a\<rparr>),
                   pushed := pushed st @ [(heap st (user st))\<lparr>avatar := a\<rparr>],
                   toasts := toasts st @ [photo_updated_toast],
                   requests := requests st @ [avatar_request st asset]\<rparr>)))"
  by (simp add: upload_def api_call_def updateUserProfile_def toast_show_def Let_def
        split: sum.split option.split)

text \<open>
  C4. An image whose reported size is above \<open>5 * 1024 * 1024\<close> bytes stops the workflow
  before the upload: the size notice is shown, no request is sent, and the user object,
  the session's reference to it and the snapshots it received are as they were. The
  loading flag is cleared.
\<close>

theorem oversized_photo_aborts:
  assumes "launchImageLibraryAsync e = Inr photoSelected"
    and "\<not> canceled photoSelected"
    and "assets photoSelected = asset # rest"
    and "uri asset \<noteq> []"
    and "getInfoAsync e (uri asset) = Inr photoInfo"
    and "size_bytes photoInfo = Some n"
    and "5 * 1024 * 1024 < n"
  shows "handleUserPhotoSelect e st =
           st\<lparr>toasts := toasts st @ [size_limit_toast], photoIsLoading := False\<rparr>
         \<and> requests (handleUserPhotoSelect e st) = requests st
         \<and> heap (handleUserPhotoSelect e st) = heap st
         \<and> user (handleUserPhotoSelect e st) = user st
         \<and> pushed (handleUserPhotoSelect e st) = pushed st"
proof -
  from assms(6,7) have "too_large photoInfo" by (simp add: too_large_iff)
  with photo_selected [OF assms(1-5)]
  have "handleUserPhotoSelect_try e (st\<lparr>photoIsLoading := True\<rparr>) =
          (None, toast_show size_limit_toast (st\<lparr>photoIsLoading := True\<rparr>))"
    by simp
  then have "handleUserPhotoSelect e st =
          st\<lparr>toasts := toasts st @ [size_limit_toast], photoIsLoading := False\<rparr>"
    by (simp add: handleUserPhotoSelect_def toast_show_def)
  then show ?thesis by simp
qed

text \<open>
  Scenario 4 of the spec: 6291456 bytes.
\<close>

theorem oversized_photo_aborts_witness:
  "handleUserPhotoSelect
     (example_env example_picked (Inr \<lparr>size_bytes = Some 6291456\<rparr>)
        (Inr \<lparr>data = Some (Str ''u123.png'')\<rparr>))
     example_state
   = example_state\<lparr>toasts := [size_limit_toast], photoIsLoading := False\<rparr>
   \<and> requests (handleUserPhotoSelect
        (example_env example_picked (Inr \<lparr>size_bytes = Some 6291456\<rparr>)
           (Inr \<lparr>data = Some (Str ''u123.png'')\<rparr>))
        example_state) = []"
  using oversized_photo_aborts
          [of "example_env example_picked (Inr \<lparr>size_bytes = Some 6291456\<rparr>)
                 (Inr \<lparr>data = Some (Str ''u123.png'')\<rparr>)"
              "\<lparr>canceled = False, assets = [example_asset]\<rparr>" example_asset "[]"
              "\<lparr>size_bytes = Some 6291456\<rparr>" 6291456 example_state]
  by (simp add: example_env_def example_picked_def example_asset_def example_state_def)

text \<open>
  C5. When the upload succeeds and the response holds an avatar string, the snapshot
  handed to the session is the user with \<open>avatar\<close> replaced by exactly that string, and
  the session's current user shows it.
\<close>

theorem uploaded_avatar_is_pushed:
  assumes "launchImageLibraryAsync e = Inr photoSelected"
    and "\<not> canceled photoSelected"
    and "assets photoSelected = asset # rest"
    and "uri asset \<noteq> []"
    and "getInfoAsync e (uri asset) = Inr photoInfo"
    and "\<not> too_large photoInfo"
    and "api e (avatar_request st asset) = Inr response"
    and "data response = Some (Str a)"
  shows "pushed (handleUserPhotoSelect e st) = pushed st @ [(current_user st)\<lparr>avatar := Str a\<rparr>]
         \<and> avatar (last (pushed (handleUserPhotoSelect e st))) = Str a
         \<and> avatar (current_user (handleUserPhotoSelect e st)) = Str a
         \<and> requests (handleUserPhotoSelect e st) = requests st @ [avatar_request st asset]
         \<and> toasts (handleUserPhotoSelect e st) = toasts st @ [photo_updated_toast]"
proof -
  from photo_selected [OF assms(1-5)] assms(6)
  have "handleUserPhotoSelect_try e (st\<lparr>photoIsLoading := True\<rparr>) =
          upload e asset (st\<lparr>photoIsLoading := True\<rparr>)"
    by simp
  with assms(7,8) show ?thesis
    by (simp add: handleUserPhotoSelect_def upload_result current_user_def)
qed

text \<open>
  Scenario 5 of the spec: 2097152 bytes, and the server answers \<open>u123.png\<close>.
\<close>

theorem uploaded_avatar_is_pushed_witness:
  "map avatar (pushed (handleUserPhotoSelect
       (example_env example_picked (Inr \<lparr>size_bytes = Some 2097152\<rparr>)
          (Inr \<lparr>data = Some (Str ''u123.png'')\<rparr>))
       example_state)) = [Str ''u123.png'']
   \<and> avatar (current_user (handleUserPhotoSelect
       (example_env example_picked (Inr \<lparr>size_bytes = Some 2097152\<rparr>)
          (Inr \<lparr>data = Some (Str ''u123.png'')\<rparr>))
       example_state)) = Str ''u123.png''"
  using uploaded_avatar_is_pushed
          [of "example_env example_picked (Inr \<lparr>size_bytes = Some 2097152\<rparr>)
                 (Inr \<lparr>data = Some (Str ''u123.png'')\<rparr>)"
              "\<lparr>canceled = False, assets = [example_asset]\<rparr>" example_asset "[]"
              "\<lparr>size_bytes = Some 2097152\<rparr>" example_state
              "\<lparr>data = Some (Str ''u123.png'')\<rparr>" "''u123.png''"]
  by (simp add: example_env_def example_picked_def example_asset_def example_state_def
        too_large_iff)

text \<open>
  C6. Whatever the collaborators answer, failure or success, \<open>photoIsLoading\<close> is false
  when the photo workflow returns and \<open>isUpdating\<close> is false when the profile update
  returns: both are cleared in a \<open>finally\<close>.
\<close>

theorem flags_cleared:
  "photoIsLoading (handleUserPhotoSelect e st) = False
   \<and> isUpdating (handleProfileUpdate e d st) = False"
  by (simp add: handleUserPhotoSelect_def handleProfileUpdate_def split: prod.split)

text \<open>
  C7. When the picker reports a cancellation the workflow returns with nothing shown,
  nothing sent and nothing changed in the session; the only write is the loading flag,
  set back to false.
\<close>

theorem cancelled_picker_changes_nothing:
  assumes "launchImageLibraryAsync e = Inr photoSelected" and "canceled photoSelected"
  shows "handleUserPhotoSelect e st = st\<lparr>photoIsLoading := False\<rparr>
         \<and> toasts (handleUserPhotoSelect e st) = toasts st
         \<and> requests (handleUserPhotoSelect e st) = requests st
         \<and> heap (handleUserPhotoSelect e st) = heap st
         \<and> user (handleUserPhotoSelect e st) = user st
         \<and> pushed (handleUserPhotoSelect e st) = pushed st"
  using assms by (simp add: handleUserPhotoSelect_def handleUserPhotoSelect_try_def)

text \<open>
  A cancelled picker on a screen at rest: the state is the one before.
\<close>

theorem cancelled_picker_changes_nothing_witness:
  "handleUserPhotoSelect
     (example_env example_cancelled (Inl OtherError) (Inl OtherError)) example_state
   = example_state
   \<and> toasts (handleUserPhotoSelect
        (example_env example_cancelled (Inl OtherError) (Inl OtherError)) example_state) = []"
  using cancelled_picker_changes_nothing
          [of "example_env example_cancelled (Inl OtherError) (Inl OtherError)"
              "\<lparr>canceled = True, assets = []\<rparr>" example_state]
  by (simp add: example_env_def example_cancelled_def example_state_def)

text \<open>
  C10. When the file information has no size, or a size of zero, the size check does
  not fire and the workflow goes on to the upload: it sends \<open>PATCH /users/avatar\<close> as
  multipart form data whose part \<open>avatar\<close> is the selected file (named after the user,
  in lower case, with the extension of the URI), and the one notification is that of
  the upload's outcome (success, or the classified error), not the size notice of the
  check.
\<close>

theorem missing_size_skips_check:
  assumes "launchImageLibraryAsync e = Inr photoSelected"
    and "\<not> canceled photoSelected"
    and "assets photoSelected = asset # rest"
    and "uri asset \<noteq> []"
    and "getInfoAsync e (uri asset) = Inr photoInfo"
    and "size_bytes photoInfo = None \<or> size_bytes photoInfo = Some 0"
    and "sent =
           \<lparr>http_method = PATCH, url = ''/users/avatar'',
            body = FormData
              [(''avatar'',
                \<lparr>file_name =
                   toLowerCase (to_string (name (current_user st)) @ ''.''
                                @ pop (split (CHR ''.'') (uri asset))),
                 file_uri = uri asset,
                 file_type = to_string (asset_type asset) @ ''/''
                             @ pop (split (CHR ''.'') (uri asset))\<rparr>)],
            headers = [(''Content-Type'', ''multipart/form-data'')]\<rparr>"
  shows "requests (handleUserPhotoSelect e st) = requests st @ [sent]
         \<and> toasts (handleUserPhotoSelect e st) =
             toasts st @
               [case api e sent of
                  Inl error \<Rightarrow> photo_error_toast error
                | Inr response \<Rightarrow>
                    (case data response of
                       None \<Rightarrow> photo_error_toast OtherError
                     | Some a \<Rightarrow> photo_updated_toast)]"
proof -
  from assms(7) have sent: "avatar_request st asset = sent"
    by (simp add: avatar_request_def current_user_def Let_def)
  from assms(6) have "\<not> too_large photoInfo" by (auto simp add: too_large_iff)
  with photo_selected [OF assms(1-5)]
  have "handleUserPhotoSelect_try e (st\<lparr>photoIsLoading := True\<rparr>) =
          upload e asset (st\<lparr>photoIsLoading := True\<rparr>)"
    by simp
  then show ?thesis
    by (simp add: handleUserPhotoSelect_def upload_result toast_show_def sent
          split: sum.split option.split)
qed

text \<open>
  Ana picks \<open>me.JPG\<close>. No size with a successful upload, and a size of zero with a
  failing one: in both the request carries the file \<open>ana.jpg\<close>.
\<close>

theorem missing_size_skips_check_witness:
  "requests (handleUserPhotoSelect
       (example_env example_picked (Inr \<lparr>size_bytes = None\<rparr>)
          (Inr \<lparr>data = Some (Str ''u123.png'')\<rparr>))
       example_state)
     = [\<lparr>http_method = PATCH, url = ''/users/avatar'',
         body = FormData
           [(''avatar'',
             \<lparr>file_name = ''ana.jpg'', file_uri = ''file:///photos/me.JPG'',
              file_type = ''image/JPG''\<rparr>)],
         headers = [(''Content-Type'', ''multipart/form-data'')]\<rparr>]
   \<and> toasts (handleUserPhotoSelect
       (example_env example_picked (Inr \<lparr>size_bytes = None\<rparr>)
          (Inr \<lparr>data = Some (Str ''u123.png'')\<rparr>))
       example_state) = [photo_updated_toast]
   \<and> requests (handleUserPhotoSelect
       (example_env example_picked (Inr \<lparr>size_bytes = Some 0\<rparr>) (Inl OtherError))
       example_state)
     = [\<lparr>http_method = PATCH, url = ''/users/avatar'',
         body = FormData
           [(''avatar'',
             \<lparr>file_name = ''ana.jpg'', file_uri = ''file:///photos/me.JPG'',
              file_type = ''image/JPG''\<rparr>)],
         headers = [(''Content-Type'', ''multipart/form-data'')]\<rparr>]
   \<and> toasts (handleUserPhotoSelect
       (example_env example_picked (Inr \<lparr>size_bytes = Some 0\<rparr>) (Inl OtherError))
       example_state) = [photo_error_toast OtherError]"
proof -
  have lower: "toLowerCase ''Ana.JPG'' = ''ana.jpg''"
    by code_simp
  have sent:
    "\<lparr>http_method = PATCH, url = ''/users/avatar'',
      body = FormData
        [(''avatar'',
          \<lparr>file_name = ''ana.jpg'', file_uri = ''file:///photos/me.JPG'',
           file_type = ''image/JPG''\<rparr>)],
      headers = [(''Content-Type'', ''multipart/form-data'')]\<rparr>
     = \<lparr>http_method = PATCH, url = ''/users/avatar'',
        body = FormData
          [(''avatar'',
            \<lparr>file_name =
               toLowerCase (to_string (name (current_user example_state)) @ ''.''
                            @ pop (split (CHR ''.'') (uri example_asset))),
             file_uri = uri example_asset,
             file_type = to_string (asset_type example_asset) @ ''/''
                         @ pop (split (CHR ''.'') (uri example_asset))\<rparr>)],
        headers = [(''Content-Type'', ''multipart/form-data'')]\<rparr>"
    by (simp add: example_asset_def example_state_def example_user_def current_user_def
          pop_def lower)
  from missing_size_skips_check
          [of "example_env example_picked (Inr \<lparr>size_bytes = None\<rparr>)
                 (Inr \<lparr>data = Some (Str ''u123.png'')\<rparr>)"
              "\<lparr>canceled = False, assets = [example_asset]\<rparr>" example_asset "[]"
              "\<lparr>size_bytes = None\<rparr>" _ example_state, OF _ _ _ _ _ _ sent]
       missing_size_skips_check
          [of "example_env example_picked (Inr \<lparr>size_bytes = Some 0\<rparr>) (Inl OtherError)"
              "\<lparr>canceled = False, assets = [example_asset]\<rparr>" example_asset "[]"
              "\<lparr>size_bytes = Some 0\<rparr>" _ example_state, OF _ _ _ _ _ _ sent]
  show ?thesis
    by (simp add: example_env_def example_picked_def example_asset_def example_state_def)
qed

section \<open>The profile update\<close>

lemma resolver_accepts:
  assumes "field_errors ver profileSchema v Name = None"
    and "field_errors ver profileSchema v Password = None"
    and "field_errors ver profileSchema v Confirm_password = None"
  shows "yupResolver ver profileSchema v = Inr (cast_object profileSchema v)"
proof -
  have "validate_inner ver profileSchema v = []"
    using assms
    by (simp add: field_errors_def validate_inner_profileSchema Let_def map_of_Pair
          map_of_Pair_last del: map_of_append split: if_splits)
  then show ?thesis by (simp add: yupResolver_def)
qed

lemma profile_update_result:
  "handleProfileUpdate e d st =
     (case api e (profile_request d) of
        Inl error \<Rightarrow>
          st\<lparr>heap := (heap st)(user st := (heap st (user st))\<lparr>name := d Name\<rparr>),
             isUpdating := False,
             toasts := toasts st @ [profile_error_toast error],
             requests := requests st @ [profile_request d]\<rparr>
      | Inr response \<Rightarrow>
          st\<lparr>heap := (heap st)(user st := (heap st (user st))\<lparr>name := d Name\<rparr>),
             pushed := pushed st @ [(heap st (user st))\<lparr>name := d Name\<rparr>],
             isUpdating := False,
             toasts := toasts st @ [profile_updated_toast],
             requests := requests st @ [profile_request d]\<rparr>)"
  by (simp add: handleProfileUpdate_def handleProfileUpdate_try_def api_call_def
        updateUserProfile_def toast_show_def Let_def split: sum.split)

text \<open>
  C1. The claim asks that a failed update leave the session's user as it was. The code
  writes \<open>data.name\<close> into the user object before the call (line 157, through the
  alias of line 156), so after a failure the session's user already carries the new
  name, although the session was never handed a snapshot: Ana submits the name Bob, the
  call fails with an unclassified error, and the current user is named Bob. The
  fallback message is shown.
\<close>

theorem failed_update_renames_user:
  "name (current_user example_state) = Str ''Ana''
   \<and> name (current_user
        (handleProfileUpdate (example_env example_cancelled (Inl OtherError) (Inl OtherError))
           (example_form (Str ''Bob'') Undefined Undefined) example_state)) = Str ''Bob''
   \<and> pushed (handleProfileUpdate (example_env example_cancelled (Inl OtherError) (Inl OtherError))
        (example_form (Str ''Bob'') Undefined Undefined) example_state) = []
   \<and> toasts (handleProfileUpdate (example_env example_cancelled (Inl OtherError) (Inl OtherError))
        (example_form (Str ''Bob'') Undefined Undefined) example_state)
      = [profile_error_toast OtherError]"
  by (simp add: handleProfileUpdate_def handleProfileUpdate_try_def api_call_def
        toast_show_def current_user_def example_state_def example_env_def example_user_def
        example_form_def)

text \<open>
  C3, as stated, fails: the body of the update call is the validated form as a whole,
  and the form holds the e-mail.
\<close>

theorem email_submitted_counterexample:
  "(case yupResolver Yup_1 profileSchema (example_form (Str ''Bob'') Undefined Undefined) of
      Inl errors \<Rightarrow> False
    | Inr d \<Rightarrow>
        map body (requests (handleProfileUpdate
          (example_env example_cancelled (Inl OtherError) (Inr \<lparr>data = None\<rparr>)) d example_state))
        = [Json d]
        \<and> d Email = Str ''ana@example.com'')
   \<and> (case yupResolver Yup_0_32 profileSchema (example_form (Str ''Bob'') Undefined Undefined) of
      Inl errors \<Rightarrow> False
    | Inr d \<Rightarrow>
        map body (requests (handleProfileUpdate
          (example_env example_cancelled (Inl OtherError) (Inr \<lparr>data = None\<rparr>)) d example_state))
        = [Json d]
        \<and> d Email = Str ''ana@example.com'')"
proof -
  let ?f = "example_form (Str ''Bob'') Undefined Undefined"
  have "yupResolver ver profileSchema ?f = Inr (cast_object profileSchema ?f)" for ver
    by (rule resolver_accepts)
       (simp_all add: errors_Name errors_Password errors_Confirm_password example_form_def)
  moreover have "cast_object profileSchema ?f Email = Str ''ana@example.com''"
    by (simp add: cast_profileSchema example_form_def)
  ultimately show ?thesis
    by (simp add: profile_update_result profile_request_def example_env_def example_state_def)
qed

text \<open>
  C3, amended. For every validated payload the workflow sends one \<open>PUT /users\<close> whose
  body is the whole payload the validation returned: the name, the old password, the
  password fields, and the e-mail as the form holds it.
\<close>

theorem whole_form_submitted:
  assumes "yupResolver ver profileSchema values = Inr d"
  shows "requests (handleProfileUpdate e d st) =
           requests st @ [\<lparr>http_method = PUT, url = ''/users'', body = Json d, headers = []\<rparr>]
         \<and> d Name = values Name \<and> d Email = values Email
         \<and> d Old_password = values Old_password"
proof -
  from assms have "d = cast_object profileSchema values"
    by (auto simp add: yupResolver_def split: if_splits)
  then show ?thesis
    by (simp add: profile_update_result profile_request_def cast_profileSchema split: sum.split)
qed

text \<open>
  A form that changes only the name.
\<close>

theorem whole_form_submitted_witness:
  "yupResolver Yup_1 profileSchema (example_form (Str ''Bob'') Undefined Undefined)
     = Inr (cast_object profileSchema (example_form (Str ''Bob'') Undefined Undefined))
   \<and> requests (handleProfileUpdate
        (example_env example_cancelled (Inl OtherError) (Inr \<lparr>data = None\<rparr>))
        (cast_object profileSchema (example_form (Str ''Bob'') Undefined Undefined))
        example_state)
      = [\<lparr>http_method = PUT, url = ''/users'',
          body = Json (cast_object profileSchema (example_form (Str ''Bob'') Undefined Undefined)),
          headers = []\<rparr>]
   \<and> cast_object profileSchema (example_form (Str ''Bob'') Undefined Undefined) Email
      = Str ''ana@example.com''"
proof -
  let ?f = "example_form (Str ''Bob'') Undefined Undefined"
  have r: "yupResolver Yup_1 profileSchema ?f = Inr (cast_object profileSchema ?f)"
    by (rule resolver_accepts)
       (simp_all add: errors_Name errors_Password errors_Confirm_password example_form_def)
  from whole_form_submitted [OF r, of
      "example_env example_cancelled (Inl OtherError) (Inr \<lparr>data = None\<rparr>)" example_state] r
  show ?thesis by (simp add: example_state_def example_form_def)
qed

end
